theory Spec2Isabelle
  imports Complex_Main
begin

section \<open>Python values\<close>

text \<open>
  Both scripts work on what \<^verbatim>\<open>json.load\<close> returns: lists of dictionaries with string keys
  whose values are \<^verbatim>\<open>None\<close>, booleans, integers, floats, strings, lists and dictionaries.
  Integers are unbounded. Floats are IEEE doubles, which HOL does not have: the float type
  is the parameter \<open>'f\<close>, and the float primitives the scripts use are passed in a record,
  so that every theorem holds for whatever the primitives compute (rounding included).
  A dictionary is an association list in insertion order with distinct keys. Strings are
  ASCII text.
\<close>

datatype error = KeyError | AttributeError | TypeError | OverflowError

datatype 'f pyval =
    PNone
  | PBool bool
  | PInt int
  | PFloat 'f
  | PStr string
  | PList "'f pyval list"
  | PDict "(string \<times> 'f pyval) list"

type_synonym 'f pydict = "(string \<times> 'f pyval) list"

text \<open>
  The float primitives: product and sum of two doubles, the double nearest to an integer
  (for integers in range), the double denoted by the decimal literal \<open>m / 10 ^ k\<close>, the
  test for zero behind truthiness, and the exact comparison \<open>x > i\<close> of a double with an
  integer.
\<close>

record 'f float_ops =
  f_mul :: "'f \<Rightarrow> 'f \<Rightarrow> 'f"
  f_add :: "'f \<Rightarrow> 'f \<Rightarrow> 'f"
  f_of_int :: "int \<Rightarrow> 'f"
  f_lit :: "int \<Rightarrow> nat \<Rightarrow> 'f"
  f_is_zero :: "'f \<Rightarrow> bool"
  f_gt_int :: "'f \<Rightarrow> int \<Rightarrow> bool"

text \<open>\<^verbatim>\<open>d.get(k)\<close> as an option, \<^verbatim>\<open>d.get(k, dflt)\<close>, \<^verbatim>\<open>d[k]\<close> and \<^verbatim>\<open>d[k] = v\<close>.\<close>

definition dict_get :: "'f pydict \<Rightarrow> string \<Rightarrow> 'f pyval option" where
  "dict_get d k = map_of d k"

definition dict_get_default :: "'f pydict \<Rightarrow> string \<Rightarrow> 'f pyval \<Rightarrow> 'f pyval" where
  "dict_get_default d k dflt = (case map_of d k of None \<Rightarrow> dflt | Some v \<Rightarrow> v)"

definition dict_getitem :: "'f pydict \<Rightarrow> string \<Rightarrow> error + 'f pyval" where
  "dict_getitem d k = (case map_of d k of None \<Rightarrow> Inl KeyError | Some v \<Rightarrow> Inr v)"

fun dict_set :: "'f pydict \<Rightarrow> string \<Rightarrow> 'f pyval \<Rightarrow> 'f pydict" where
  "dict_set [] k v = [(k, v)]"
| "dict_set ((k', v') # d) k v =
     (if k' = k then (k, v) # d else (k', v') # dict_set d k v)"

text \<open>Truthiness, as \<^verbatim>\<open>if v:\<close> tests it.\<close>

definition py_truthy :: "'f float_ops \<Rightarrow> 'f pyval \<Rightarrow> bool" where
  "py_truthy ops v =
     (case v of
        PNone \<Rightarrow> False
      | PBool b \<Rightarrow> b
      | PInt i \<Rightarrow> i \<noteq> 0
      | PFloat x \<Rightarrow> \<not> f_is_zero ops x
      | PStr s \<Rightarrow> s \<noteq> []
      | PList xs \<Rightarrow> xs \<noteq> []
      | PDict d \<Rightarrow> d \<noteq> [])"

text \<open>
  Converting an integer to a double raises \<^verbatim>\<open>OverflowError\<close> when the integer rounds
  beyond the largest finite double.
\<close>

definition int_to_float :: "'f float_ops \<Rightarrow> int \<Rightarrow> error + 'f" where
  "int_to_float ops i =
     (if \<bar>i\<bar> < 2 ^ 1024 - 2 ^ 970 then Inr (f_of_int ops i) else Inl OverflowError)"

definition int_of_bool :: "bool \<Rightarrow> int" where
  "int_of_bool b = (if b then 1 else 0)"

text \<open>\<^verbatim>\<open>s * n\<close> for a sequence \<open>s\<close>: \<open>n\<close> copies, none when \<open>n \<le> 0\<close>.\<close>

definition seq_repeat :: "'a list \<Rightarrow> int \<Rightarrow> 'a list" where
  "seq_repeat s n = concat (replicate (nat n) s)"

text \<open>\<^verbatim>\<open>a * b\<close>. A boolean is the integer 0 or 1.\<close>

fun py_mul :: "'f float_ops \<Rightarrow> 'f pyval \<Rightarrow> 'f pyval \<Rightarrow> error + 'f pyval" where
  "py_mul ops (PBool a) (PBool b) = Inr (PInt (int_of_bool a * int_of_bool b))"
| "py_mul ops (PBool a) (PInt b) = Inr (PInt (int_of_bool a * b))"
| "py_mul ops (PInt a) (PBool b) = Inr (PInt (a * int_of_bool b))"
| "py_mul ops (PInt a) (PInt b) = Inr (PInt (a * b))"
| "py_mul ops (PBool a) (PFloat y) =
     (case int_to_float ops (int_of_bool a) of
        Inl e \<Rightarrow> Inl e | Inr x \<Rightarrow> Inr (PFloat (f_mul ops x y)))"
| "py_mul ops (PInt a) (PFloat y) =
     (case int_to_float ops a of
        Inl e \<Rightarrow> Inl e | Inr x \<Rightarrow> Inr (PFloat (f_mul ops x y)))"
| "py_mul ops (PFloat x) (PBool b) =
     (case int_to_float ops (int_of_bool b) of
        Inl e \<Rightarrow> Inl e | Inr y \<Rightarrow> Inr (PFloat (f_mul ops x y)))"
| "py_mul ops (PFloat x) (PInt b) =
     (case int_to_float ops b of
        Inl e \<Rightarrow> Inl e | Inr y \<Rightarrow> Inr (PFloat (f_mul ops x y)))"
| "py_mul ops (PFloat x) (PFloat y) = Inr (PFloat (f_mul ops x y))"
| "py_mul ops (PStr s) (PBool b) = Inr (PStr (seq_repeat s (int_of_bool b)))"
| "py_mul ops (PStr s) (PInt n) = Inr (PStr (seq_repeat s n))"
| "py_mul ops (PBool b) (PStr s) = Inr (PStr (seq_repeat s (int_of_bool b)))"
| "py_mul ops (PInt n) (PStr s) = Inr (PStr (seq_repeat s n))"
| "py_mul ops (PList xs) (PBool b) = Inr (PList (seq_repeat xs (int_of_bool b)))"
| "py_mul ops (PList xs) (PInt n) = Inr (PList (seq_repeat xs n))"
| "py_mul ops (PBool b) (PList xs) = Inr (PList (seq_repeat xs (int_of_bool b)))"
| "py_mul ops (PInt n) (PList xs) = Inr (PList (seq_repeat xs n))"
| "py_mul ops _ _ = Inl TypeError"

text \<open>\<^verbatim>\<open>a + b\<close>.\<close>

fun py_add :: "'f float_ops \<Rightarrow> 'f pyval \<Rightarrow> 'f pyval \<Rightarrow> error + 'f pyval" where
  "py_add ops (PBool a) (PBool b) = Inr (PInt (int_of_bool a + int_of_bool b))"
| "py_add ops (PBool a) (PInt b) = Inr (PInt (int_of_bool a + b))"
| "py_add ops (PInt a) (PBool b) = Inr (PInt (a + int_of_bool b))"
| "py_add ops (PInt a) (PInt b) = Inr (PInt (a + b))"
| "py_add ops (PBool a) (PFloat y) =
     (case int_to_float ops (int_of_bool a) of
        Inl e \<Rightarrow> Inl e | Inr x \<Rightarrow> Inr (PFloat (f_add ops x y)))"
| "py_add ops (PInt a) (PFloat y) =
     (case int_to_float ops a of
        Inl e \<Rightarrow> Inl e | Inr x \<Rightarrow> Inr (PFloat (f_add ops x y)))"
| "py_add ops (PFloat x) (PBool b) =
     (case int_to_float ops (int_of_bool b) of
        Inl e \<Rightarrow> Inl e | Inr y \<Rightarrow> Inr (PFloat (f_add ops x y)))"
| "py_add ops (PFloat x) (PInt b) =
     (case int_to_float ops b of
        Inl e \<Rightarrow> Inl e | Inr y \<Rightarrow> Inr (PFloat (f_add ops x y)))"
| "py_add ops (PFloat x) (PFloat y) = Inr (PFloat (f_add ops x y))"
| "py_add ops (PStr s) (PStr t) = Inr (PStr (s @ t))"
| "py_add ops (PList xs) (PList ys) = Inr (PList (xs @ ys))"
| "py_add ops _ _ = Inl TypeError"

text \<open>\<^verbatim>\<open>v > i\<close> for an integer literal \<open>i\<close>; ordering a non-number against it is a type error.\<close>

definition py_gt_int :: "'f float_ops \<Rightarrow> 'f pyval \<Rightarrow> int \<Rightarrow> error + bool" where
  "py_gt_int ops v i =
     (case v of
        PBool b \<Rightarrow> Inr (int_of_bool b > i)
      | PInt a \<Rightarrow> Inr (a > i)
      | PFloat x \<Rightarrow> Inr (f_gt_int ops x i)
      | _ \<Rightarrow> Inl TypeError)"


section \<open>Patient data cleaner\<close>

subsection \<open>\<^verbatim>\<open>str.title()\<close>\<close>

definition is_lower :: "char \<Rightarrow> bool" where
  "is_lower c = (97 \<le> (of_char c :: nat) \<and> (of_char c :: nat) \<le> 122)"

definition is_upper :: "char \<Rightarrow> bool" where
  "is_upper c = (65 \<le> (of_char c :: nat) \<and> (of_char c :: nat) \<le> 90)"

definition is_cased :: "char \<Rightarrow> bool" where
  "is_cased c = (is_lower c \<or> is_upper c)"

definition to_upper :: "char \<Rightarrow> char" where
  "to_upper c = (if is_lower c then char_of ((of_char c :: nat) - 32) else c)"

definition to_lower :: "char \<Rightarrow> char" where
  "to_lower c = (if is_upper c then char_of ((of_char c :: nat) + 32) else c)"

text \<open>
  \<^verbatim>\<open>str.title()\<close> walks the string once: a character is lowercased when the character
  before it is cased (a letter) and titlecased otherwise. The definitions above case the
  ASCII letters only, so \<open>title\<close> is \<^verbatim>\<open>str.title()\<close> on ASCII strings; on a string with
  a letter outside ASCII, which Python cases as well, it is not. What is stated below
  about the value of \<open>title\<close> is stated for ASCII strings only.
\<close>

primrec title_from :: "bool \<Rightarrow> string \<Rightarrow> string" where
  "title_from previous_is_cased [] = []"
| "title_from previous_is_cased (c # cs) =
     (if previous_is_cased then to_lower c else to_upper c) # title_from (is_cased c) cs"

definition title :: "string \<Rightarrow> string" where
  "title s = title_from False s"

text \<open>The method call \<^verbatim>\<open>v.title()\<close>: only a string has the method.\<close>

definition str_title :: "'f pyval \<Rightarrow> error + 'f pyval" where
  "str_title v = (case v of PStr s \<Rightarrow> Inr (PStr (title s)) | _ \<Rightarrow> Inl AttributeError)"

text \<open>
  The method calls \<^verbatim>\<open>v.fillna(d)\<close>, \<^verbatim>\<open>v.astype(int)\<close> and \<^verbatim>\<open>patient.drop_duplicates()\<close>.
  No JSON value and no dictionary has such an attribute: looking it up raises
  \<^verbatim>\<open>AttributeError\<close>, whatever the receiver.
\<close>

definition fillna :: "'f pyval \<Rightarrow> 'f pyval \<Rightarrow> error + 'f pyval" where
  "fillna v d = Inl AttributeError"

definition astype_int :: "'f pyval \<Rightarrow> error + 'f pyval" where
  "astype_int v = Inl AttributeError"

definition drop_duplicates :: "'f pydict \<Rightarrow> error + 'f pydict" where
  "drop_duplicates patient = Inl AttributeError"

subsection \<open>\<^verbatim>\<open>clean_patient_data\<close>\<close>

text \<open>
  The body of the \<^verbatim>\<open>for\<close> loop, for one record. The record is the caller's dictionary and
  the assignments write into it, so the body returns the dictionary as it is afterwards,
  together with its outcome: the exception raised, or the record to append (\<open>None\<close> when
  the age test drops it).
\<close>

definition clean_patient_body ::
  "'f float_ops \<Rightarrow> 'f pydict \<Rightarrow> 'f pydict \<times> (error + 'f pydict option)" where
  "clean_patient_body ops patient =
     (case dict_getitem patient ''name'' of
        Inl e \<Rightarrow> (patient, Inl e)
      | Inr n \<Rightarrow>
     (case str_title n of
        Inl e \<Rightarrow> (patient, Inl e)
      | Inr t \<Rightarrow>
     (let patient1 = dict_set patient ''name'' t in
      case dict_getitem patient1 ''age'' of
        Inl e \<Rightarrow> (patient1, Inl e)
      | Inr a \<Rightarrow>
     (case fillna a (PInt 0) of
        Inl e \<Rightarrow> (patient1, Inl e)
      | Inr a1 \<Rightarrow>
     (case astype_int a1 of
        Inl e \<Rightarrow> (patient1, Inl e)
      | Inr a2 \<Rightarrow>
     (let patient2 = dict_set patient1 ''age'' a2 in
      case drop_duplicates patient2 of
        Inl e \<Rightarrow> (patient2, Inl e)
      | Inr deduped \<Rightarrow>
     (case dict_getitem deduped ''age'' of
        Inl e \<Rightarrow> (patient2, Inl e)
      | Inr a3 \<Rightarrow>
     (case py_gt_int ops a3 18 of
        Inl e \<Rightarrow> (patient2, Inl e)
      | Inr b \<Rightarrow> (patient2, Inr (if b then Some deduped else None))))))))))"

text \<open>
  The loop over the input list, with \<^verbatim>\<open>cleaned_patients\<close> as accumulator. An exception ends
  the call and leaves the records visited so far as the body left them.
\<close>

fun clean_patient_loop ::
  "'f float_ops \<Rightarrow> 'f pydict list \<Rightarrow> 'f pydict list \<Rightarrow> 'f pydict list \<times> (error + 'f pydict list)" where
  "clean_patient_loop ops [] cleaned_patients = ([], Inr cleaned_patients)"
| "clean_patient_loop ops (patient # rest) cleaned_patients =
     (case clean_patient_body ops patient of
        (patient', Inl e) \<Rightarrow> (patient' # rest, Inl e)
      | (patient', Inr kept) \<Rightarrow>
          (case clean_patient_loop ops rest
                  (case kept of None \<Rightarrow> cleaned_patients | Some r \<Rightarrow> cleaned_patients @ [r]) of
             (rest', out) \<Rightarrow> (patient' # rest', out)))"

text \<open>
  The function returns \<^verbatim>\<open>None\<close> when nothing was appended. The result pairs the input
  records as they are after the call with the outcome; \<open>Inr None\<close> is Python's \<^verbatim>\<open>None\<close>.
\<close>

definition clean_patient_data ::
  "'f float_ops \<Rightarrow> 'f pydict list \<Rightarrow> 'f pydict list \<times> (error + 'f pydict list option)" where
  "clean_patient_data ops patients =
     (case clean_patient_loop ops patients [] of
        (patients', Inl e) \<Rightarrow> (patients', Inl e)
      | (patients', Inr cleaned_patients) \<Rightarrow>
          (patients', Inr (if cleaned_patients = [] then None else Some cleaned_patients)))"

subsection \<open>The name rule in the specification's words\<close>

definition is_space :: "char \<Rightarrow> bool" where
  "is_space c = ((9 \<le> (of_char c :: nat) \<and> (of_char c :: nat) \<le> 13)
                 \<or> (28 \<le> (of_char c :: nat) \<and> (of_char c :: nat) \<le> 32))"

text \<open>
  Each whitespace-separated token has its first character uppercased and the rest
  lowercased; whitespace is kept. The flag says whether the walk is inside a token.
\<close>

primrec capitalize_tokens_from :: "bool \<Rightarrow> string \<Rightarrow> string" where
  "capitalize_tokens_from in_token [] = []"
| "capitalize_tokens_from in_token (c # cs) =
     (if is_space c then c # capitalize_tokens_from False cs
      else (if in_token then to_lower c else to_upper c) # capitalize_tokens_from True cs)"

definition capitalize_tokens :: "string \<Rightarrow> string" where
  "capitalize_tokens s = capitalize_tokens_from False s"

section \<open>Medication dosage calculator\<close>

definition DOSAGE_FACTORS :: "'f float_ops \<Rightarrow> (string \<times> 'f) list" where
  "DOSAGE_FACTORS ops =
     [(''epinephrine'', f_lit ops 1 2),
      (''amiodarone'', f_lit ops 500 2),
      (''lorazepam'', f_lit ops 5 2),
      (''fentanyl'', f_lit ops 1 3),
      (''lisinopril'', f_lit ops 5 1),
      (''metformin'', f_lit ops 100 1),
      (''oseltamivir'', f_lit ops 25 1),
      (''sumatriptan'', f_lit ops 10 1),
      (''albuterol'', f_lit ops 1 1),
      (''ibuprofen'', f_lit ops 50 1),
      (''sertraline'', f_lit ops 15 1),
      (''levothyroxine'', f_lit ops 2 2)]"

definition LOADING_DOSE_MEDICATIONS :: "string list" where
  "LOADING_DOSE_MEDICATIONS = [''amiodarone'', ''lorazepam'', ''fentanyl'']"

text \<open>
  \<^verbatim>\<open>DOSAGE_FACTORS.get(medication, 0)\<close>: a list or a dictionary is unhashable and raises
  \<^verbatim>\<open>TypeError\<close>; any other key that is not in the table gives the integer 0.
\<close>

definition factor_lookup :: "'f float_ops \<Rightarrow> 'f pyval \<Rightarrow> error + 'f pyval" where
  "factor_lookup ops medication =
     (case medication of
        PList xs \<Rightarrow> Inl TypeError
      | PDict d \<Rightarrow> Inl TypeError
      | PStr m \<Rightarrow> Inr (case map_of (DOSAGE_FACTORS ops) m of None \<Rightarrow> PInt 0 | Some f \<Rightarrow> PFloat f)
      | _ \<Rightarrow> Inr (PInt 0))"

text \<open>\<^verbatim>\<open>medication in LOADING_DOSE_MEDICATIONS\<close>: equality with one of the names.\<close>

definition in_names :: "'f pyval \<Rightarrow> string list \<Rightarrow> bool" where
  "in_names v names = (case v of PStr m \<Rightarrow> m \<in> set names | _ \<Rightarrow> False)"

definition calculate_dosage :: "'f float_ops \<Rightarrow> 'f pydict \<Rightarrow> error + 'f pyval" where
  "calculate_dosage ops patient =
     (let weight = dict_get_default patient ''weight'' PNone;
          medication = dict_get_default patient ''medication'' PNone
      in case factor_lookup ops medication of
           Inl e \<Rightarrow> Inl e
         | Inr factor \<Rightarrow>
        (case py_mul ops weight factor of
           Inl e \<Rightarrow> Inl e
         | Inr base_dosage \<Rightarrow>
        (let is_first_dose = dict_get_default patient ''is_first_dose'' (PBool False) in
         if py_truthy ops is_first_dose then
           if in_names medication LOADING_DOSE_MEDICATIONS then py_mul ops base_dosage (PInt 2)
           else Inr base_dosage
         else Inr base_dosage)))"

definition medication_warnings :: "'f pyval \<Rightarrow> 'f pyval list" where
  "medication_warnings medication =
     (if medication = PStr ''epinephrine'' then [PStr ''Monitor for arrhythmias'']
      else if medication = PStr ''amiodarone'' then [PStr ''Monitor for hypotension'']
      else if medication = PStr ''fentanyl'' then [PStr ''Monitor for respiratory depression'']
      else [])"

text \<open>
  The body of the loop of \<^verbatim>\<open>calculate_all_dosages\<close>: the record it appends, with the
  dosage it adds to the total. The record is a copy of the input dictionary, so the
  caller's dictionary stays as it is.
\<close>

definition dosage_body :: "'f float_ops \<Rightarrow> 'f pydict \<Rightarrow> error + ('f pydict \<times> 'f pyval)" where
  "dosage_body ops patient =
     (let patient_with_dosage = patient in
      case calculate_dosage ops patient_with_dosage of
        Inl e \<Rightarrow> Inl e
      | Inr temp_dosage \<Rightarrow>
     (let pwd1 = dict_set patient_with_dosage ''dosage'' temp_dosage;
          pwd2 = dict_set pwd1 ''final_dosage'' temp_dosage;
          weight = dict_get_default pwd2 ''weight'' PNone;
          medication = dict_get_default pwd2 ''medication'' PNone
      in case factor_lookup ops medication of
           Inl e \<Rightarrow> Inl e
         | Inr factor \<Rightarrow>
        (case py_mul ops weight factor of
           Inl e \<Rightarrow> Inl e
         | Inr base_dosage \<Rightarrow>
        (let pwd3 = dict_set pwd2 ''base_dosage'' base_dosage;
             pwd4 = dict_set pwd3 ''warnings'' (PList (medication_warnings medication))
         in Inr (pwd4, temp_dosage)))))"

fun calculate_all_loop ::
  "'f float_ops \<Rightarrow> 'f pydict list \<Rightarrow> 'f pyval \<Rightarrow> 'f pydict list \<Rightarrow> error + ('f pydict list \<times> 'f pyval)" where
  "calculate_all_loop ops [] total_medication patients_with_dosages =
     Inr (patients_with_dosages, total_medication)"
| "calculate_all_loop ops (patient # rest) total_medication patients_with_dosages =
     (case dosage_body ops patient of
        Inl e \<Rightarrow> Inl e
      | Inr (patient_with_dosage, temp_dosage) \<Rightarrow>
     (case py_add ops total_medication temp_dosage of
        Inl e \<Rightarrow> Inl e
      | Inr total' \<Rightarrow>
          calculate_all_loop ops rest total' (patients_with_dosages @ [patient_with_dosage])))"

definition calculate_all_dosages ::
  "'f float_ops \<Rightarrow> 'f pydict list \<Rightarrow> error + ('f pydict list \<times> 'f pyval)" where
  "calculate_all_dosages ops patients = calculate_all_loop ops patients (PInt 0) []"

subsection \<open>The total in the specification's words\<close>

text \<open>The sum of a sequence of values, added one after the other to a starting value.\<close>

fun sum_in_order :: "'f float_ops \<Rightarrow> 'f pyval \<Rightarrow> 'f pyval list \<Rightarrow> error + 'f pyval" where
  "sum_in_order ops acc [] = Inr acc"
| "sum_in_order ops acc (x # xs) =
     (case py_add ops acc x of Inl e \<Rightarrow> Inl e | Inr acc' \<Rightarrow> sum_in_order ops acc' xs)"

subsection \<open>The dosage rule in the specification's words\<close>

text \<open>A numeric weight is an integer or a float.\<close>

definition is_numeric :: "'f pyval \<Rightarrow> bool" where
  "is_numeric v = (case v of PInt i \<Rightarrow> True | PFloat x \<Rightarrow> True | _ \<Rightarrow> False)"

text \<open>A number that converts to a double: a float, or an integer within the doubles' range.\<close>

definition in_float_range :: "'f pyval \<Rightarrow> bool" where
  "in_float_range v = (case v of PInt i \<Rightarrow> \<bar>i\<bar> < 2 ^ 1024 - 2 ^ 970 | _ \<Rightarrow> True)"

definition py_hashable :: "'f pyval \<Rightarrow> bool" where
  "py_hashable v = (case v of PList xs \<Rightarrow> False | PDict d \<Rightarrow> False | _ \<Rightarrow> True)"

text \<open>The factor of a medication: its entry in the factor table, and 0 when it is unknown.\<close>

definition table_factor :: "'f float_ops \<Rightarrow> 'f pyval \<Rightarrow> 'f pyval" where
  "table_factor ops medication =
     (case medication of
        PStr m \<Rightarrow> (case map_of (DOSAGE_FACTORS ops) m of Some f \<Rightarrow> PFloat f | None \<Rightarrow> PInt 0)
      | _ \<Rightarrow> PInt 0)"

text \<open>
  A dosage request as the data model has it: a numeric weight that converts to a double
  and a hashable medication key.
\<close>

definition well_formed_request :: "'f pydict \<Rightarrow> bool" where
  "well_formed_request patient =
     (is_numeric (dict_get_default patient ''weight'' PNone)
      \<and> in_float_range (dict_get_default patient ''weight'' PNone)
      \<and> py_hashable (dict_get_default patient ''medication'' PNone))"

subsection \<open>An instance of the float primitives\<close>

text \<open>
  Exact rational arithmetic in place of the doubles, for running the definitions on
  concrete inputs.
\<close>

definition exact_ops :: "rat float_ops" where
  "exact_ops =
     \<lparr> f_mul = (\<lambda>x y. x * y),
       f_add = (\<lambda>x y. x + y),
       f_of_int = of_int,
       f_lit = (\<lambda>m k. of_int m / 10 ^ k),
       f_is_zero = (\<lambda>x. x = 0),
       f_gt_int = (\<lambda>x i. x > of_int i) \<rparr>"


section \<open>Properties of the patient data cleaner\<close>

subsection \<open>Dictionaries\<close>

lemma map_of_dict_set: "map_of (dict_set d k v) = (map_of d)(k \<mapsto> v)"
  by (induction d) (auto simp: fun_eq_iff)

lemma dict_get_set: "dict_get (dict_set d k v) k' = (if k' = k then Some v else dict_get d k')"
  by (simp add: dict_get_def map_of_dict_set)

subsection \<open>What one call does\<close>

text \<open>
  The loop body title-cases the name in place when the name is a string, and then always
  raises: a missing key is a \<^verbatim>\<open>KeyError\<close>, and \<^verbatim>\<open>.fillna\<close> on the age is an
  \<^verbatim>\<open>AttributeError\<close>.
\<close>

lemma clean_patient_body_state:
  "fst (clean_patient_body ops patient) =
     (case dict_get patient ''name'' of
        Some (PStr s) \<Rightarrow> dict_set patient ''name'' (PStr (title s))
      | _ \<Rightarrow> patient)"
  by (simp add: clean_patient_body_def dict_getitem_def dict_get_def str_title_def fillna_def
        Let_def split: option.splits pyval.splits sum.splits)

lemma clean_patient_body_raises:
  "snd (clean_patient_body ops patient) = Inl KeyError
   \<or> snd (clean_patient_body ops patient) = Inl AttributeError"
  by (simp add: clean_patient_body_def dict_getitem_def str_title_def fillna_def
        Let_def split: option.splits pyval.splits sum.splits)

lemma clean_patient_loop_Cons:
  "clean_patient_loop ops (patient # rest) cleaned =
     (fst (clean_patient_body ops patient) # rest,
      case snd (clean_patient_body ops patient) of Inl e \<Rightarrow> Inl e | Inr k \<Rightarrow> Inl AttributeError)"
  using clean_patient_body_raises [of ops patient]
  by (cases "clean_patient_body ops patient") auto

lemma clean_patient_data_Nil: "clean_patient_data ops [] = ([], Inr None)"
  by (simp add: clean_patient_data_def)

lemma clean_patient_data_Cons_state:
  "fst (clean_patient_data ops (patient # rest)) = fst (clean_patient_body ops patient) # rest"
  by (simp add: clean_patient_data_def clean_patient_loop_Cons split: sum.splits
        del: clean_patient_loop.simps)

lemma clean_patient_data_Cons_outcome:
  "snd (clean_patient_data ops (patient # rest)) =
     (case snd (clean_patient_body ops patient) of Inl e \<Rightarrow> Inl e | Inr k \<Rightarrow> Inl AttributeError)"
  by (simp add: clean_patient_data_def clean_patient_loop_Cons split: sum.splits
        del: clean_patient_loop.simps)

text \<open>On a non-empty list the call never returns: the first record already raises.\<close>

lemma clean_patient_data_Cons_raises:
  "snd (clean_patient_data ops (patient # rest)) = Inl KeyError
   \<or> snd (clean_patient_data ops (patient # rest)) = Inl AttributeError"
  using clean_patient_body_raises [of ops patient]
  by (auto simp: clean_patient_data_Cons_outcome)

lemma clean_patient_body_frame:
  "k \<noteq> ''name'' \<Longrightarrow> dict_get (fst (clean_patient_body ops patient)) k = dict_get patient k"
  by (simp add: clean_patient_body_state dict_get_set split: option.splits pyval.splits)

text \<open>
  So no call retains a record: the only result a call returns is \<^verbatim>\<open>None\<close>, for the empty
  input.
\<close>

lemma clean_patient_data_retains_nothing:
  "snd (clean_patient_data ops patients) \<noteq> Inr (Some cleaned_patients)"
proof (cases patients)
  case Nil
  then show ?thesis by (simp add: clean_patient_data_Nil)
next
  case (Cons p ps)
  then show ?thesis
    using clean_patient_data_Cons_raises [of ops p ps] by auto
qed

subsection \<open>Title case and token capitalisation\<close>

lemma uncased_fixed: "\<not> is_cased c \<Longrightarrow> to_upper c = c \<and> to_lower c = c"
  by (simp add: is_cased_def to_upper_def to_lower_def)

lemma space_not_cased: "is_space c \<Longrightarrow> \<not> is_cased c"
  by (auto simp: is_space_def is_cased_def is_lower_def is_upper_def)

text \<open>
  On a string of ASCII letters and ASCII whitespace the two walks agree, whatever the flag they
  start with: after a letter both are inside a word, after whitespace both are outside.
\<close>

lemma title_from_tokens:
  "\<forall>c\<in>set s. is_cased c \<or> is_space c \<Longrightarrow>
   title_from b s = capitalize_tokens_from b s"
proof (induction s arbitrary: b)
  case Nil
  show ?case by simp
next
  case (Cons c cs)
  have rest: "\<And>b'. title_from b' cs = capitalize_tokens_from b' cs"
    using Cons by simp
  show ?case
  proof (cases "is_space c")
    case True
    then have "\<not> is_cased c" by (rule space_not_cased)
    with True show ?thesis by (simp add: rest uncased_fixed)
  next
    case False
    with Cons.prems have "is_cased c" by simp
    with False show ?thesis by (simp add: rest)
  qed
qed

text \<open>
  After a character that is neither a letter nor whitespace the two differ:
  \<^verbatim>\<open>str.title()\<close> starts a new word there, token capitalisation does not.
\<close>

lemma title_after_hyphen:
  "title ''mary-jane'' = ''Mary-Jane'' \<and> capitalize_tokens ''mary-jane'' = ''Mary-jane''"
  by code_simp

subsection \<open>The age filter\<close>

text \<open>
  C1: a record is retained if and only if its normalised age is at least 18, and a record
  of age exactly 18 is in the output. The code does not do this. On the one-record input
  with age \<^verbatim>\<open>"18"\<close> the call raises \<^verbatim>\<open>AttributeError\<close> at the age conversion and returns
  nothing; and the test the filter applies afterwards, \<^verbatim>\<open>age > 18\<close>, is false at 18.
\<close>

theorem clean_patient_data_age_18:
  "snd (clean_patient_data ops
      [[(''name'', PStr ''a b''), (''age'', PStr ''18''),
        (''gender'', PStr ''female''), (''diagnosis'', PStr ''flu'')]]) = Inl AttributeError
   \<and> py_gt_int ops (PInt 18) 18 = Inr False"
  by (simp add: clean_patient_data_Cons_outcome clean_patient_body_def dict_getitem_def
        str_title_def fillna_def py_gt_int_def)

subsection \<open>The age conversion\<close>

text \<open>
  C2: an age that is not a valid integer representation is coerced to 0 without a failure,
  and a valid one yields that integer. The code does not do this. With the age \<^verbatim>\<open>"abc"\<close>
  and with the age \<^verbatim>\<open>"32"\<close> alike the call raises \<^verbatim>\<open>AttributeError\<close>, and the record's
  age is left as the string it was.
\<close>

theorem clean_patient_data_age_not_converted:
  "clean_patient_data ops
      [[(''name'', PStr ''A B''), (''age'', PStr ''abc''),
        (''gender'', PStr ''female''), (''diagnosis'', PStr ''flu'')]]
     = ([[(''name'', PStr ''A B''), (''age'', PStr ''abc''),
          (''gender'', PStr ''female''), (''diagnosis'', PStr ''flu'')]], Inl AttributeError)
   \<and> clean_patient_data ops
      [[(''name'', PStr ''A B''), (''age'', PStr ''32''),
        (''gender'', PStr ''female''), (''diagnosis'', PStr ''flu'')]]
     = ([[(''name'', PStr ''A B''), (''age'', PStr ''32''),
          (''gender'', PStr ''female''), (''diagnosis'', PStr ''flu'')]], Inl AttributeError)"
  by (simp add: clean_patient_data_def clean_patient_body_def dict_getitem_def str_title_def
        fillna_def title_def to_upper_def to_lower_def is_lower_def is_upper_def is_cased_def)

subsection \<open>Duplicates\<close>

text \<open>
  C3: the output has no two structurally equal records; of duplicates in the input the
  first is kept, in input order. The code does not do this. On an input of two equal
  records the call raises \<^verbatim>\<open>AttributeError\<close> at the first of them, so no output holds the
  first occurrence.
\<close>

theorem clean_patient_data_duplicates_raise:
  "snd (clean_patient_data ops
      [[(''name'', PStr ''John Smith''), (''age'', PInt 32),
        (''gender'', PStr ''male''), (''diagnosis'', PStr ''flu'')],
       [(''name'', PStr ''John Smith''), (''age'', PInt 32),
        (''gender'', PStr ''male''), (''diagnosis'', PStr ''flu'')]]) = Inl AttributeError"
  by (simp add: clean_patient_data_Cons_outcome clean_patient_body_def dict_getitem_def
        str_title_def fillna_def)

subsection \<open>The empty result\<close>

text \<open>
  C4, as amended: on the empty input list \<^verbatim>\<open>clean_patient_data\<close> returns \<^verbatim>\<open>None\<close>, and on
  no input does it return an empty list; a caller has to test for \<^verbatim>\<open>None\<close>, the length of
  the result is not defined then.
\<close>

theorem clean_patient_data_empty_result:
  "snd (clean_patient_data ops []) = Inr None
   \<and> snd (clean_patient_data ops patients) \<noteq> Inr (Some [])"
proof (cases patients)
  case Nil
  then show ?thesis by (simp add: clean_patient_data_Nil)
next
  case (Cons p ps)
  then show ?thesis
    using clean_patient_data_Cons_raises [of ops p ps] by (auto simp: clean_patient_data_Nil)
qed

text \<open>The claim as the specification has it, an empty sequence for the empty input, fails.\<close>

theorem clean_patient_data_empty_counterexample:
  "snd (clean_patient_data exact_ops []) = Inr None
   \<and> snd (clean_patient_data exact_ops []) \<noteq> Inr (Some [])"
  by (simp add: clean_patient_data_def)

subsection \<open>Effect on the caller's records\<close>

text \<open>
  C8, as amended: \<^verbatim>\<open>clean_patient_data\<close> normalises in place, so the call may change the
  \<^verbatim>\<open>name\<close> and \<^verbatim>\<open>age\<close> entries of the caller's records; every other entry of every input
  record (gender, diagnosis and any further key) is unchanged after the call, and so is
  the number of records.
\<close>

theorem clean_patient_data_frame:
  "k \<noteq> ''name'' \<Longrightarrow> k \<noteq> ''age'' \<Longrightarrow>
   map (\<lambda>p. dict_get p k) (fst (clean_patient_data ops patients)) = map (\<lambda>p. dict_get p k) patients
   \<and> length (fst (clean_patient_data ops patients)) = length patients"
  by (cases patients)
     (simp_all add: clean_patient_data_Nil clean_patient_data_Cons_state clean_patient_body_frame)

theorem clean_patient_data_frame_witness:
  "''gender'' \<noteq> ''name'' \<and> ''gender'' \<noteq> ''age''
   \<and> map (\<lambda>p. dict_get p ''gender'') (fst (clean_patient_data exact_ops
      [[(''name'', PStr ''john smith''), (''age'', PStr ''32''),
        (''gender'', PStr ''male''), (''diagnosis'', PStr ''flu'')]]))
     = [Some (PStr ''male'')]"
proof -
  have n: "''gender'' \<noteq> ''name''" and a: "''gender'' \<noteq> ''age''"
    by simp_all
  show ?thesis
    using clean_patient_data_frame [OF n a, of exact_ops
      "[[(''name'', PStr ''john smith''), (''age'', PStr ''32''),
         (''gender'', PStr ''male''), (''diagnosis'', PStr ''flu'')]]"]
    by (simp add: dict_get_def)
qed

text \<open>
  The claim as the specification has it, that no record is modified, fails: the name of
  the caller's record is overwritten.
\<close>

theorem clean_patient_data_mutates_counterexample:
  "fst (clean_patient_data exact_ops
      [[(''name'', PStr ''john smith''), (''age'', PStr ''32''),
        (''gender'', PStr ''male''), (''diagnosis'', PStr ''flu'')]])
     = [[(''name'', PStr ''John Smith''), (''age'', PStr ''32''),
         (''gender'', PStr ''male''), (''diagnosis'', PStr ''flu'')]]
   \<and> fst (clean_patient_data exact_ops
      [[(''name'', PStr ''john smith''), (''age'', PStr ''32''),
        (''gender'', PStr ''male''), (''diagnosis'', PStr ''flu'')]])
     \<noteq> [[(''name'', PStr ''john smith''), (''age'', PStr ''32''),
         (''gender'', PStr ''male''), (''diagnosis'', PStr ''flu'')]]"
  by code_simp

section \<open>Properties of the dosage calculator\<close>

subsection \<open>Lookups and arithmetic\<close>

lemma dict_get_default_set:
  "dict_get_default (dict_set d k v) k' dflt = (if k' = k then v else dict_get_default d k' dflt)"
  by (simp add: dict_get_default_def map_of_dict_set)

lemma factor_lookup_hashable:
  "py_hashable medication \<Longrightarrow> factor_lookup ops medication = Inr (table_factor ops medication)"
  by (cases medication) (simp_all add: py_hashable_def factor_lookup_def table_factor_def)

lemma table_factor_cases:
  "table_factor ops medication = PInt 0 \<or> (\<exists>f. table_factor ops medication = PFloat f)"
  by (simp add: table_factor_def split: pyval.splits option.splits)

lemma int_to_float_2: "int_to_float ops 2 = Inr (f_of_int ops 2)"
  by (simp add: int_to_float_def)

lemma int_to_float_0: "int_to_float ops 0 = Inr (f_of_int ops 0)"
  by (simp add: int_to_float_def)

text \<open>
  A weight that converts to a double times a factor of the table is a float, or the
  integer 0 when the factor is the default 0 and the weight an integer; doubling keeps that.
\<close>

lemma py_mul_numeric:
  assumes "is_numeric w" and "in_float_range w" and "f = PInt 0 \<or> (\<exists>x. f = PFloat x)"
  shows "\<exists>b. py_mul ops w f = Inr b \<and> (b = PInt 0 \<or> (\<exists>y. b = PFloat y))"
  using assms
  by (cases w) (auto simp: is_numeric_def in_float_range_def int_to_float_def int_to_float_0)

lemma py_mul_2:
  assumes "b = PInt 0 \<or> (\<exists>y. b = PFloat y)"
  shows "\<exists>d. py_mul ops b (PInt 2) = Inr d \<and> (d = PInt 0 \<or> (\<exists>y. d = PFloat y))"
  using assms by (auto simp: int_to_float_2)

lemma py_add_running_total:
  assumes "t = PInt 0 \<or> (\<exists>x. t = PFloat x)" and "d = PInt 0 \<or> (\<exists>y. d = PFloat y)"
  shows "\<exists>t'. py_add ops t d = Inr t' \<and> (t' = PInt 0 \<or> (\<exists>x. t' = PFloat x))"
  using assms by (auto simp: int_to_float_0)

subsection \<open>One dosage\<close>

lemma calculate_dosage_eq:
  assumes "py_hashable (dict_get_default patient ''medication'' PNone)"
  shows "calculate_dosage ops patient =
     (case py_mul ops (dict_get_default patient ''weight'' PNone)
             (table_factor ops (dict_get_default patient ''medication'' PNone)) of
        Inl e \<Rightarrow> Inl e
      | Inr base_dosage \<Rightarrow>
          if py_truthy ops (dict_get_default patient ''is_first_dose'' (PBool False))
             \<and> in_names (dict_get_default patient ''medication'' PNone) LOADING_DOSE_MEDICATIONS
          then py_mul ops base_dosage (PInt 2)
          else Inr base_dosage)"
  using assms
  by (simp add: calculate_dosage_def Let_def factor_lookup_hashable split: sum.splits)

lemma calculate_dosage_returns:
  assumes "well_formed_request patient"
  shows "\<exists>d. calculate_dosage ops patient = Inr d \<and> (d = PInt 0 \<or> (\<exists>y. d = PFloat y))"
proof -
  let ?w = "dict_get_default patient ''weight'' PNone"
  let ?m = "dict_get_default patient ''medication'' PNone"
  have h: "py_hashable ?m" and n: "is_numeric ?w" and r: "in_float_range ?w"
    using assms by (simp_all add: well_formed_request_def)
  obtain b where b: "py_mul ops ?w (table_factor ops ?m) = Inr b"
      "b = PInt 0 \<or> (\<exists>y. b = PFloat y)"
    using py_mul_numeric [OF n r table_factor_cases] by blast
  obtain d where d: "py_mul ops b (PInt 2) = Inr d" "d = PInt 0 \<or> (\<exists>y. d = PFloat y)"
    using py_mul_2 [OF b(2)] by blast
  show ?thesis
    using b d by (simp add: calculate_dosage_eq [OF h])
qed

text \<open>
  C5: for a dosage request with a numeric weight, \<^verbatim>\<open>calculate_dosage\<close> returns the product
  of the weight and the factor, the factor being the medication's entry in the factor table
  and 0 for an unknown medication; the result is that base dosage times 2 when
  \<^verbatim>\<open>is_first_dose\<close> is true and the medication is in the loading-dose list, and the base
  dosage itself otherwise. The product is Python's: the first part says that the call
  evaluates as the product does, the second that for a float weight, and for an integer
  weight within the doubles' range, both products exist and the call returns.
  For a boolean \<^verbatim>\<open>is_first_dose\<close> truthiness is the flag itself.
\<close>

theorem calculate_dosage_formula:
  assumes "is_numeric (dict_get_default patient ''weight'' PNone)"
    and "py_hashable (dict_get_default patient ''medication'' PNone)"
  shows "calculate_dosage ops patient =
     (case py_mul ops (dict_get_default patient ''weight'' PNone)
             (table_factor ops (dict_get_default patient ''medication'' PNone)) of
        Inl e \<Rightarrow> Inl e
      | Inr base_dosage \<Rightarrow>
          if py_truthy ops (dict_get_default patient ''is_first_dose'' (PBool False))
             \<and> in_names (dict_get_default patient ''medication'' PNone) LOADING_DOSE_MEDICATIONS
          then py_mul ops base_dosage (PInt 2)
          else Inr base_dosage)
   \<and> (in_float_range (dict_get_default patient ''weight'' PNone) \<longrightarrow>
       (\<exists>base_dosage doubled.
          py_mul ops (dict_get_default patient ''weight'' PNone)
             (table_factor ops (dict_get_default patient ''medication'' PNone)) = Inr base_dosage
          \<and> py_mul ops base_dosage (PInt 2) = Inr doubled
          \<and> calculate_dosage ops patient =
              Inr (if py_truthy ops (dict_get_default patient ''is_first_dose'' (PBool False))
                      \<and> in_names (dict_get_default patient ''medication'' PNone) LOADING_DOSE_MEDICATIONS
                   then doubled else base_dosage)))"
proof (intro conjI impI)
  show eq: "calculate_dosage ops patient =
     (case py_mul ops (dict_get_default patient ''weight'' PNone)
             (table_factor ops (dict_get_default patient ''medication'' PNone)) of
        Inl e \<Rightarrow> Inl e
      | Inr base_dosage \<Rightarrow>
          if py_truthy ops (dict_get_default patient ''is_first_dose'' (PBool False))
             \<and> in_names (dict_get_default patient ''medication'' PNone) LOADING_DOSE_MEDICATIONS
          then py_mul ops base_dosage (PInt 2)
          else Inr base_dosage)"
    using assms(2) by (rule calculate_dosage_eq)
  assume r: "in_float_range (dict_get_default patient ''weight'' PNone)"
  obtain b where b: "py_mul ops (dict_get_default patient ''weight'' PNone)
             (table_factor ops (dict_get_default patient ''medication'' PNone)) = Inr b"
      "b = PInt 0 \<or> (\<exists>y. b = PFloat y)"
    using py_mul_numeric [OF assms(1) r table_factor_cases] by blast
  obtain d where d: "py_mul ops b (PInt 2) = Inr d"
    using py_mul_2 [OF b(2)] by blast
  show "\<exists>base_dosage doubled.
          py_mul ops (dict_get_default patient ''weight'' PNone)
             (table_factor ops (dict_get_default patient ''medication'' PNone)) = Inr base_dosage
          \<and> py_mul ops base_dosage (PInt 2) = Inr doubled
          \<and> calculate_dosage ops patient =
              Inr (if py_truthy ops (dict_get_default patient ''is_first_dose'' (PBool False))
                      \<and> in_names (dict_get_default patient ''medication'' PNone) LOADING_DOSE_MEDICATIONS
                   then doubled else base_dosage)"
    using b(1) d by (simp add: eq)
qed

theorem calculate_dosage_formula_witness:
  "is_numeric (dict_get_default
      [(''name'', PStr ''Ann''), (''weight'', PInt 70), (''medication'', PStr ''amiodarone''),
       (''is_first_dose'', PBool True)] ''weight'' (PNone :: rat pyval))
   \<and> py_hashable (dict_get_default
      [(''name'', PStr ''Ann''), (''weight'', PInt 70), (''medication'', PStr ''amiodarone''),
       (''is_first_dose'', PBool True)] ''medication'' (PNone :: rat pyval))
   \<and> in_float_range (dict_get_default
      [(''name'', PStr ''Ann''), (''weight'', PInt 70), (''medication'', PStr ''amiodarone''),
       (''is_first_dose'', PBool True)] ''weight'' (PNone :: rat pyval))
   \<and> calculate_dosage exact_ops
      [(''name'', PStr ''Ann''), (''weight'', PInt 70), (''medication'', PStr ''amiodarone''),
       (''is_first_dose'', PBool True)] = Inr (PFloat 700)"
proof -
  let ?p = "[(''name'', PStr ''Ann''), (''weight'', PInt 70), (''medication'', PStr ''amiodarone''),
       (''is_first_dose'', PBool True)] :: rat pydict"
  have n: "is_numeric (dict_get_default ?p ''weight'' PNone)"
    by (simp add: dict_get_default_def is_numeric_def)
  have h: "py_hashable (dict_get_default ?p ''medication'' PNone)"
    by (simp add: dict_get_default_def py_hashable_def)
  have r: "in_float_range (dict_get_default ?p ''weight'' PNone)"
    by (simp add: dict_get_default_def in_float_range_def)
  have "calculate_dosage exact_ops ?p =
     (case py_mul exact_ops (dict_get_default ?p ''weight'' PNone)
             (table_factor exact_ops (dict_get_default ?p ''medication'' PNone)) of
        Inl e \<Rightarrow> Inl e
      | Inr base_dosage \<Rightarrow>
          if py_truthy exact_ops (dict_get_default ?p ''is_first_dose'' (PBool False))
             \<and> in_names (dict_get_default ?p ''medication'' PNone) LOADING_DOSE_MEDICATIONS
          then py_mul exact_ops base_dosage (PInt 2)
          else Inr base_dosage)"
    using calculate_dosage_formula [OF n h, of exact_ops] by (rule conjunct1)
  also have "\<dots> = Inr (PFloat 700)"
    by code_simp
  finally show ?thesis using n h r by simp
qed

subsection \<open>All dosages\<close>

lemma dosage_body_result:
  assumes "dosage_body ops patient = Inr (r, temp)"
  shows "calculate_dosage ops patient = Inr temp"
    and "dict_get r ''dosage'' = Some temp"
    and "dict_get r ''final_dosage'' = Some temp"
  using assms
  by (auto simp: dosage_body_def Let_def dict_get_set split: sum.splits)

lemma dosage_body_returns:
  assumes "well_formed_request patient"
  shows "\<exists>r d. dosage_body ops patient = Inr (r, d) \<and> (d = PInt 0 \<or> (\<exists>y. d = PFloat y))"
proof -
  let ?w = "dict_get_default patient ''weight'' PNone"
  let ?m = "dict_get_default patient ''medication'' PNone"
  have h: "py_hashable ?m" and n: "is_numeric ?w" and r: "in_float_range ?w"
    using assms by (simp_all add: well_formed_request_def)
  obtain d where d: "calculate_dosage ops patient = Inr d" "d = PInt 0 \<or> (\<exists>y. d = PFloat y)"
    using calculate_dosage_returns [OF assms] by blast
  obtain b where b: "py_mul ops ?w (table_factor ops ?m) = Inr b"
    using py_mul_numeric [OF n r table_factor_cases] by blast
  show ?thesis
    using d b h
    by (simp add: dosage_body_def Let_def dict_get_default_set factor_lookup_hashable)
qed

lemma dosage_body_loading_flag:
  assumes "dosage_body ops patient = Inr (r, d)"
  shows "dict_get r ''loading_dose_applied'' = dict_get patient ''loading_dose_applied''"
  using assms
  by (auto simp: dosage_body_def Let_def dict_get_set split: sum.splits)

text \<open>
  The loop appends one record per request; the records' \<^verbatim>\<open>final_dosage\<close> and \<^verbatim>\<open>dosage\<close>
  entries are the dosages added to the running total, in that order.
\<close>

lemma calculate_all_loop_result:
  "calculate_all_loop ops patients tot acc = Inr (results, t) \<Longrightarrow>
   \<exists>new finals. results = acc @ new \<and> length new = length patients
     \<and> map (\<lambda>r. dict_get r ''final_dosage'') new = map Some finals
     \<and> map (\<lambda>r. dict_get r ''dosage'') new = map Some finals
     \<and> sum_in_order ops tot finals = Inr t"
proof (induction patients arbitrary: tot acc)
  case Nil
  then show ?case by simp
next
  case (Cons p ps)
  from Cons.prems obtain r temp tot' where
    body: "dosage_body ops p = Inr (r, temp)" and
    add: "py_add ops tot temp = Inr tot'" and
    rest: "calculate_all_loop ops ps tot' (acc @ [r]) = Inr (results, t)"
    by (auto split: sum.splits)
  from Cons.IH [OF rest] obtain new finals where
    new: "results = (acc @ [r]) @ new" "length new = length ps"
      "map (\<lambda>r. dict_get r ''final_dosage'') new = map Some finals"
      "map (\<lambda>r. dict_get r ''dosage'') new = map Some finals"
      "sum_in_order ops tot' finals = Inr t"
    by blast
  have "results = acc @ (r # new)" using new(1) by simp
  moreover have "length (r # new) = length (p # ps)" using new(2) by simp
  moreover have "map (\<lambda>r. dict_get r ''final_dosage'') (r # new) = map Some (temp # finals)"
    using new(3) dosage_body_result(3) [OF body] by simp
  moreover have "map (\<lambda>r. dict_get r ''dosage'') (r # new) = map Some (temp # finals)"
    using new(4) dosage_body_result(2) [OF body] by simp
  moreover have "sum_in_order ops tot (temp # finals) = Inr t"
    using add new(5) by simp
  ultimately show ?case by blast
qed

lemma calculate_all_loop_returns:
  "\<forall>p\<in>set patients. well_formed_request p \<Longrightarrow> t = PInt 0 \<or> (\<exists>x. t = PFloat x) \<Longrightarrow>
   \<exists>results t'. calculate_all_loop ops patients t acc = Inr (results, t')"
proof (induction patients arbitrary: t acc)
  case Nil
  show ?case by simp
next
  case (Cons p ps)
  have wf: "well_formed_request p" using Cons.prems(1) by simp
  obtain r d where body: "dosage_body ops p = Inr (r, d)" "d = PInt 0 \<or> (\<exists>y. d = PFloat y)"
    using dosage_body_returns [OF wf] by blast
  obtain t' where add: "py_add ops t d = Inr t'" "t' = PInt 0 \<or> (\<exists>x. t' = PFloat x)"
    using py_add_running_total [OF Cons.prems(2) body(2)] by blast
  have "\<exists>results t''. calculate_all_loop ops ps t' (acc @ [r]) = Inr (results, t'')"
    using Cons.IH [OF _ add(2)] Cons.prems(1) by simp
  then show ?case using body(1) add(1) by simp
qed

text \<open>
  C6: the total \<^verbatim>\<open>calculate_all_dosages\<close> returns is the sum of the \<^verbatim>\<open>final_dosage\<close> of
  the returned records, added one after the other in input order starting from 0; for the
  empty input the total is 0. On well-formed requests the call does return.
\<close>

theorem calculate_all_dosages_total: "calculate_all_dosages ops [] = Inr ([], PInt 0)
  \<and> (calculate_all_dosages ops patients = Inr (results, tot) \<longrightarrow>
      (\<exists>finals. map (\<lambda>r. dict_get r ''final_dosage'') results = map Some finals
         \<and> sum_in_order ops (PInt 0) finals = Inr tot))
  \<and> ((\<forall>p\<in>set patients. well_formed_request p) \<longrightarrow>
      (\<exists>results tot. calculate_all_dosages ops patients = Inr (results, tot)))"
proof (intro conjI impI)
  show "calculate_all_dosages ops [] = Inr ([], PInt 0)"
    by (simp add: calculate_all_dosages_def)
next
  assume "calculate_all_dosages ops patients = Inr (results, tot)"
  then show "\<exists>finals. map (\<lambda>r. dict_get r ''final_dosage'') results = map Some finals
         \<and> sum_in_order ops (PInt 0) finals = Inr tot"
    using calculate_all_loop_result [of ops patients "PInt 0" "[]" results tot]
    by (auto simp: calculate_all_dosages_def)
next
  assume "\<forall>p\<in>set patients. well_formed_request p"
  then show "\<exists>results tot. calculate_all_dosages ops patients = Inr (results, tot)"
    using calculate_all_loop_returns [of patients "PInt 0" ops "[]"]
    by (simp add: calculate_all_dosages_def)
qed

theorem calculate_all_dosages_total_witness:
  "well_formed_request
       [(''name'', PStr ''Ann''), (''weight'', PInt 70), (''medication'', PStr ''amiodarone''),
        (''is_first_dose'', PBool (True :: bool)) :: string \<times> rat pyval]
   \<and> well_formed_request
       [(''name'', PStr ''Bob''), (''weight'', PFloat (70 :: rat)), (''medication'', PStr ''epinephrine'')]
   \<and> calculate_all_dosages exact_ops
       [[(''name'', PStr ''Ann''), (''weight'', PInt 70), (''medication'', PStr ''amiodarone''),
         (''is_first_dose'', PBool True)],
        [(''name'', PStr ''Bob''), (''weight'', PFloat 70), (''medication'', PStr ''epinephrine'')]]
      = Inr ([[(''name'', PStr ''Ann''), (''weight'', PInt 70), (''medication'', PStr ''amiodarone''),
               (''is_first_dose'', PBool True), (''dosage'', PFloat 700),
               (''final_dosage'', PFloat 700), (''base_dosage'', PFloat 350),
               (''warnings'', PList [PStr ''Monitor for hypotension''])],
              [(''name'', PStr ''Bob''), (''weight'', PFloat 70), (''medication'', PStr ''epinephrine''),
               (''dosage'', PFloat (7 / 10)), (''final_dosage'', PFloat (7 / 10)),
               (''base_dosage'', PFloat (7 / 10)),
               (''warnings'', PList [PStr ''Monitor for arrhythmias''])]],
             PFloat (7007 / 10))
   \<and> sum_in_order exact_ops (PInt 0) [PFloat 700, PFloat (7 / 10)] = Inr (PFloat (7007 / 10))"
proof -
  have wf: "\<forall>p\<in>set [[(''name'', PStr ''Ann''), (''weight'', PInt 70), (''medication'', PStr ''amiodarone''),
                (''is_first_dose'', PBool True)],
               [(''name'', PStr ''Bob''), (''weight'', PFloat 70), (''medication'', PStr ''epinephrine'')]].
      well_formed_request (p :: rat pydict)"
    by (simp add: well_formed_request_def dict_get_default_def is_numeric_def in_float_range_def
          py_hashable_def)
  have run: "calculate_all_dosages exact_ops
       [[(''name'', PStr ''Ann''), (''weight'', PInt 70), (''medication'', PStr ''amiodarone''),
         (''is_first_dose'', PBool True)],
        [(''name'', PStr ''Bob''), (''weight'', PFloat 70), (''medication'', PStr ''epinephrine'')]]
      = Inr ([[(''name'', PStr ''Ann''), (''weight'', PInt 70), (''medication'', PStr ''amiodarone''),
               (''is_first_dose'', PBool True), (''dosage'', PFloat 700),
               (''final_dosage'', PFloat 700), (''base_dosage'', PFloat 350),
               (''warnings'', PList [PStr ''Monitor for hypotension''])],
              [(''name'', PStr ''Bob''), (''weight'', PFloat 70), (''medication'', PStr ''epinephrine''),
               (''dosage'', PFloat (7 / 10)), (''final_dosage'', PFloat (7 / 10)),
               (''base_dosage'', PFloat (7 / 10)),
               (''warnings'', PList [PStr ''Monitor for arrhythmias''])]],
             PFloat (7007 / 10))"
    by code_simp
  obtain finals where f: "map (\<lambda>r. dict_get r ''final_dosage'')
          [[(''name'', PStr ''Ann''), (''weight'', PInt 70), (''medication'', PStr ''amiodarone''),
               (''is_first_dose'', PBool True), (''dosage'', PFloat 700),
               (''final_dosage'', PFloat 700), (''base_dosage'', PFloat 350),
               (''warnings'', PList [PStr ''Monitor for hypotension''])],
              [(''name'', PStr ''Bob''), (''weight'', PFloat 70), (''medication'', PStr ''epinephrine''),
               (''dosage'', PFloat (7 / 10)), (''final_dosage'', PFloat (7 / 10)),
               (''base_dosage'', PFloat (7 / 10)),
               (''warnings'', PList [PStr ''Monitor for arrhythmias''])]] = map Some finals"
     and s: "sum_in_order exact_ops (PInt 0) finals = Inr (PFloat (7007 / 10 :: rat))"
    using calculate_all_dosages_total [THEN conjunct2, THEN conjunct1, rule_format, OF run] by blast
  from f have "finals = [PFloat 700, PFloat (7 / 10)]"
    by (auto simp: dict_get_def map_eq_Cons_conv)
  with s wf run show ?thesis by simp
qed

text \<open>
  C10: every record \<^verbatim>\<open>calculate_all_dosages\<close> returns has a key \<^verbatim>\<open>dosage\<close>, and its value
  is that of the record's \<^verbatim>\<open>final_dosage\<close>.
\<close>

theorem calculate_all_dosages_dosage_key: "calculate_all_dosages ops patients = Inr (results, tot) \<Longrightarrow> r \<in> set results \<Longrightarrow>
   \<exists>d. dict_get r ''dosage'' = Some d \<and> dict_get r ''final_dosage'' = Some d"
proof -
  assume a: "calculate_all_dosages ops patients = Inr (results, tot)" and r: "r \<in> set results"
  from a obtain finals where f: "map (\<lambda>r. dict_get r ''final_dosage'') results = map Some finals"
     "map (\<lambda>r. dict_get r ''dosage'') results = map Some finals"
    using calculate_all_loop_result [of ops patients "PInt 0" "[]" results tot]
    by (auto simp: calculate_all_dosages_def)
  from r obtain i where i: "i < length results" "results ! i = r"
    by (auto simp: in_set_conv_nth)
  have len: "length finals = length results" using f(1) by (metis length_map)
  have "dict_get r ''final_dosage'' = Some (finals ! i)"
    using f(1) i len by (metis nth_map)
  moreover have "dict_get r ''dosage'' = Some (finals ! i)"
    using f(2) i len by (metis nth_map)
  ultimately show ?thesis by blast
qed

theorem calculate_all_dosages_dosage_key_witness:
  "calculate_all_dosages exact_ops
     [[(''name'', PStr ''Cy''), (''weight'', PInt 60), (''medication'', PStr ''lorazepam''),
       (''is_first_dose'', PBool False)]]
    = Inr ([[(''name'', PStr ''Cy''), (''weight'', PInt 60), (''medication'', PStr ''lorazepam''),
             (''is_first_dose'', PBool False), (''dosage'', PFloat 3), (''final_dosage'', PFloat 3),
             (''base_dosage'', PFloat 3), (''warnings'', PList [])]], PFloat 3)
   \<and> dict_get [(''name'', PStr ''Cy''), (''weight'', PInt 60), (''medication'', PStr ''lorazepam''),
             (''is_first_dose'', PBool False), (''dosage'', PFloat 3), (''final_dosage'', PFloat 3),
             (''base_dosage'', PFloat 3), (''warnings'', PList [])] ''dosage''
      = dict_get [(''name'', PStr ''Cy''), (''weight'', PInt 60), (''medication'', PStr ''lorazepam''),
             (''is_first_dose'', PBool False), (''dosage'', PFloat 3), (''final_dosage'', PFloat 3),
             (''base_dosage'', PFloat (3 :: rat)), (''warnings'', PList [])] ''final_dosage''
   \<and> dict_get [(''name'', PStr ''Cy''), (''weight'', PInt 60), (''medication'', PStr ''lorazepam''),
             (''is_first_dose'', PBool False), (''dosage'', PFloat 3), (''final_dosage'', PFloat 3),
             (''base_dosage'', PFloat (3 :: rat)), (''warnings'', PList [])] ''dosage'' \<noteq> None"
proof -
  let ?r = "[(''name'', PStr ''Cy''), (''weight'', PInt 60), (''medication'', PStr ''lorazepam''),
             (''is_first_dose'', PBool False), (''dosage'', PFloat 3), (''final_dosage'', PFloat 3),
             (''base_dosage'', PFloat 3), (''warnings'', PList [])] :: rat pydict"
  have run: "calculate_all_dosages exact_ops
     [[(''name'', PStr ''Cy''), (''weight'', PInt 60), (''medication'', PStr ''lorazepam''),
       (''is_first_dose'', PBool False)]] = Inr ([?r], PFloat 3)"
    by code_simp
  have mem: "?r \<in> set [?r]" by simp
  obtain d where "dict_get ?r ''dosage'' = Some d" "dict_get ?r ''final_dosage'' = Some d"
    using calculate_all_dosages_dosage_key [OF run mem] by blast
  then show ?thesis using run by simp
qed

text \<open>
  C7: every returned record has the input's entries and \<^verbatim>\<open>base_dosage\<close>,
  \<^verbatim>\<open>loading_dose_applied\<close>, \<^verbatim>\<open>final_dosage\<close> and \<^verbatim>\<open>warnings\<close>. The code does not do this:
  it never stores \<^verbatim>\<open>loading_dose_applied\<close>. For a first dose of amiodarone, where the
  loading dose is applied, the returned record has the doubled dosage and no such key.
\<close>

theorem calculate_all_dosages_no_loading_flag: "calculate_all_dosages ops
     [[(''name'', PStr ''John Smith''), (''weight'', PFloat w), (''medication'', PStr ''amiodarone''),
       (''is_first_dose'', PBool True)]] =
     Inr ([[(''name'', PStr ''John Smith''), (''weight'', PFloat w), (''medication'', PStr ''amiodarone''),
       (''is_first_dose'', PBool True),
       (''dosage'', PFloat (f_mul ops (f_mul ops w (f_lit ops 500 2)) (f_of_int ops 2))),
       (''final_dosage'', PFloat (f_mul ops (f_mul ops w (f_lit ops 500 2)) (f_of_int ops 2))),
       (''base_dosage'', PFloat (f_mul ops w (f_lit ops 500 2))),
       (''warnings'', PList [PStr ''Monitor for hypotension''])]],
       PFloat (f_add ops (f_of_int ops 0) (f_mul ops (f_mul ops w (f_lit ops 500 2)) (f_of_int ops 2))))
   \<and> dict_get [(''name'', PStr ''John Smith''), (''weight'', PFloat w), (''medication'', PStr ''amiodarone''),
       (''is_first_dose'', PBool True),
       (''dosage'', PFloat (f_mul ops (f_mul ops w (f_lit ops 500 2)) (f_of_int ops 2))),
       (''final_dosage'', PFloat (f_mul ops (f_mul ops w (f_lit ops 500 2)) (f_of_int ops 2))),
       (''base_dosage'', PFloat (f_mul ops w (f_lit ops 500 2))),
       (''warnings'', PList [PStr ''Monitor for hypotension''])] ''loading_dose_applied'' = None"
  by (simp add: calculate_all_dosages_def dosage_body_def calculate_dosage_def Let_def
      dict_get_default_def dict_get_def factor_lookup_def DOSAGE_FACTORS_def py_truthy_def in_names_def
      LOADING_DOSE_MEDICATIONS_def int_to_float_def medication_warnings_def)

end
